theory Spec2Isabelle
  imports Main
begin

section \<open>The lock command of pex: \<^verbatim>\<open>pex/cli/commands/lock.py\<close>\<close>

text \<open>
  A shallow embedding of \<^verbatim>\<open>Lock._create\<close> and \<^verbatim>\<open>Lock._export\<close>.
  Targets (\<^verbatim>\<open>DistributionTarget\<close>), locked resolves (\<^verbatim>\<open>LockedResolve\<close>) and
  requirements (\<^verbatim>\<open>Requirement\<close>) are classes of other modules; the command only
  compares them, keys a dictionary by them and formats them, so they are the type
  variables \<open>'t\<close>, \<open>'r\<close> and \<open>'q\<close>, and what the command calls on them is a field of the
  collaborator records below.
\<close>

subsection \<open>Python's string formatting\<close>

text \<open>The one-character string \<^verbatim>\<open>"\n"\<close>.\<close>

definition NL :: string where
  "NL = [CHR 0x0A]"

text \<open>\<^verbatim>\<open>sep.join(xs)\<close>.\<close>

fun join :: "string \<Rightarrow> string list \<Rightarrow> string" where
  "join sep [] = []"
| "join sep [x] = x"
| "join sep (x # y # ys) = x @ sep @ join sep (y # ys)"

text \<open>\<^verbatim>\<open>str(n)\<close> of a non-negative integer: its decimal digits.\<close>

definition digit :: "nat \<Rightarrow> char" where
  "digit d = char_of (48 + d)"

function str_nat :: "nat \<Rightarrow> string" where
  "str_nat n = (if n < 10 then [digit n] else str_nat (n div 10) @ [digit (n mod 10)])"
  by pat_completeness auto
termination
  by (relation "measure id") auto

declare str_nat.simps [simp del]

text \<open>\<^verbatim>\<open>enumerate(xs, start=i)\<close>.\<close>

fun enumerate_from :: "nat \<Rightarrow> 'a list \<Rightarrow> (nat \<times> 'a) list" where
  "enumerate_from i [] = []"
| "enumerate_from i (x # xs) = (i, x) # enumerate_from (Suc i) xs"

text \<open>
  \<^verbatim>\<open>str(xs)\<close> of a list, which \<^verbatim>\<open>"{targets}".format(targets=xs)\<close> yields: the
  \<^verbatim>\<open>repr\<close> of every element, separated by a comma and a space, in brackets.
\<close>

definition str_list :: "('a \<Rightarrow> string) \<Rightarrow> 'a list \<Rightarrow> string" where
  "str_list repr_elem xs = ''['' @ join '', '' (map repr_elem xs) @ '']''"

subsection \<open>Results, exceptions and effects\<close>

text \<open>\<^verbatim>\<open>pex.commands.command.Result\<close>: \<^verbatim>\<open>Ok()\<close> or \<^verbatim>\<open>Error(message)\<close>.\<close>

datatype Result = Ok | Error string

text \<open>
  An exception leaving a call: the \<^verbatim>\<open>ParseError\<close> of the lock file codec with its
  \<^verbatim>\<open>str\<close>, the \<^verbatim>\<open>IndexError\<close> of a list subscript, or any other exception.
\<close>

datatype exn = ParseError string | IndexError | OtherException string

text \<open>A command either returns a \<open>Result\<close> or lets an exception propagate.\<close>

datatype outcome = Return Result | Raise exn

text \<open>
  The calls of a command that reach outside it, in the order they happen:
  \<^verbatim>\<open>resolver.download(...)\<close>, \<^verbatim>\<open>lockfile.load(path)\<close>, entering
  \<^verbatim>\<open>with self.output(self.options) as output\<close>, the two writes made inside such a block
  (\<^verbatim>\<open>locked_resolve.emit_requirements(output)\<close> and \<^verbatim>\<open>self.dump_json(..., output, ...)\<close>
  of a document), and leaving the block.
\<close>

datatype ('r, 'd) event =
    Download
  | Load string
  | Open_output
  | Emit_requirements 'r
  | Dump_json 'd
  | Close_output

subsection \<open>The selection mapping\<close>

text \<open>
  \<^verbatim>\<open>selected_locks = defaultdict(list)\<close> is a dictionary that keeps its keys in insertion
  order, modelled as an association list. \<^verbatim>\<open>selected_locks[k].append(v)\<close> appends to the
  list of an existing key in place, and inserts a missing key, with the list \<^verbatim>\<open>[v]\<close>,
  after all the others.
\<close>

fun dd_append :: "('k \<times> 'v list) list \<Rightarrow> 'k \<Rightarrow> 'v \<Rightarrow> ('k \<times> 'v list) list" where
  "dd_append [] k v = [(k, [v])]"
| "dd_append ((k', vs) # d) k v =
     (if k' = k then (k', vs @ [v]) # d else (k', vs) # dd_append d k v)"

text \<open>
  The loop \<^verbatim>\<open>for target, locked_resolve in lf.select(targets):
  selected_locks[locked_resolve].append(target)\<close> over the stream of pairs.
\<close>

definition selected_locks :: "('t \<times> 'r) list \<Rightarrow> ('r \<times> 't list) list" where
  "selected_locks stream =
     foldl (\<lambda>d (target, locked_resolve). dd_append d locked_resolve target) [] stream"

text \<open>
  The grouping in the specification's words: the keys are the locked resolves of the
  stream in the order they are first seen, and each key maps to the targets of the stream
  that are paired with it, in stream order.
\<close>

definition first_seen :: "'a list \<Rightarrow> 'a list" where
  "first_seen xs = foldl (\<lambda>seen x. if x \<in> set seen then seen else seen @ [x]) [] xs"

definition targets_of :: "('t \<times> 'r) list \<Rightarrow> 'r \<Rightarrow> 't list" where
  "targets_of stream r = map fst (filter (\<lambda>p. snd p = r) stream)"

definition grouping_spec :: "('t \<times> 'r) list \<Rightarrow> ('r \<times> 't list) list" where
  "grouping_spec stream = map (\<lambda>r. (r, targets_of stream r)) (first_seen (map snd stream))"

subsection \<open>The data the commands handle\<close>

text \<open>\<^verbatim>\<open>ExportFormat\<close>: the values \<^verbatim>\<open>Value("pip")\<close> and \<^verbatim>\<open>Value("pep-665")\<close>.\<close>

datatype ExportFormat = PIP | PEP_665

fun format_value :: "ExportFormat \<Rightarrow> string" where
  "format_value PIP = ''pip''"
| "format_value PEP_665 = ''pep-665''"

text \<open>
  What \<^verbatim>\<open>requirement_configuration.parse_requirements\<close> yields: a
  \<^verbatim>\<open>LocalProjectRequirement\<close> with its \<^verbatim>\<open>path\<close>, or one of the other parsed
  requirement classes, of which the command reads \<^verbatim>\<open>requirement\<close> only.
\<close>

datatype 'q ParsedRequirement =
    LocalProjectRequirement (path: string)
  | NamedRequirement (requirement: 'q)

text \<open>A parsed constraint, of which the command reads \<^verbatim>\<open>requirement\<close> only.\<close>

datatype 'q Constraint = Constraint (constraint_requirement: 'q)

text \<open>
  The \<^verbatim>\<open>Lockfile\<close> class is declared in \<^verbatim>\<open>pex.cli.commands.lockfile\<close>; its fields are
  the keyword arguments that \<^verbatim>\<open>Lock._create\<close> passes to \<^verbatim>\<open>Lockfile.create\<close>.
\<close>

record ('q, 'r) Lockfile =
  pex_version :: string
  resolver_version :: string
  requirements :: "'q list"
  constraints :: "'q list"
  allow_prereleases :: bool
  allow_wheels :: bool
  allow_builds :: bool
  transitive :: bool
  locked_resolves :: "'r list"

text \<open>
  Modelled from the spec: \<^verbatim>\<open>Lockfile.create\<close> is not part of the file at hand. The
  specification has the assembled document hold the tool version, the resolver version,
  the original requirement and constraint objects, the configuration flags and the
  resulting ordered sequence of locked resolves, so the model stores every argument as
  it is given.
\<close>

definition Lockfile_create ::
  "string \<Rightarrow> string \<Rightarrow> 'q list \<Rightarrow> 'q list \<Rightarrow> bool \<Rightarrow> bool \<Rightarrow> bool \<Rightarrow> bool \<Rightarrow> 'r list
   \<Rightarrow> ('q, 'r) Lockfile" where
  "Lockfile_create pv rv reqs cons prereleases wheels builds transitively locked =
     \<lparr>pex_version = pv, resolver_version = rv, requirements = reqs, constraints = cons,
      allow_prereleases = prereleases, allow_wheels = wheels, allow_builds = builds,
      transitive = transitively, locked_resolves = locked\<rparr>"

text \<open>
  Modelled from the spec: \<^verbatim>\<open>Lockfile.select\<close> is not part of the file at hand. The
  specification has the document answer, for each target, with its (target, locked
  resolve) applicability pairs, where \<^verbatim>\<open>applies_to\<close> is the capability of a locked
  resolve that decides applicability.
\<close>

definition Lockfile_select ::
  "('r \<Rightarrow> 't \<Rightarrow> bool) \<Rightarrow> ('q, 'r) Lockfile \<Rightarrow> 't list \<Rightarrow> ('t \<times> 'r) list" where
  "Lockfile_select applies_to lf targets =
     concat (map (\<lambda>t. map (\<lambda>r. (t, r)) (filter (\<lambda>r. applies_to r t) (locked_resolves lf)))
                 targets)"

text \<open>
  Modelled from the spec: \<^verbatim>\<open>pex.common.pluralize\<close> is not part of the file at hand. The
  specification has the noun singular for a count of one and with an added
  \<^verbatim>\<open>s\<close> otherwise.
\<close>

definition pluralize :: "'a list \<Rightarrow> string \<Rightarrow> string" where
  "pluralize subject noun = (if length subject = 1 then noun else noun @ ''s'')"

subsection \<open>\<^verbatim>\<open>Lock._export\<close>\<close>

text \<open>
  The options the command reads: \<^verbatim>\<open>self.options.format\<close> and
  \<^verbatim>\<open>self.options.lockfile\<close>, a list because the argument is declared with
  \<^verbatim>\<open>nargs=1\<close>.
\<close>

record export_options =
  format :: ExportFormat
  lockfile :: "string list"

text \<open>
  What the command calls outside this file. \<open>repr_format\<close> is \<^verbatim>\<open>repr\<close> of an
  \<^verbatim>\<open>ExportFormat\<close> value (\<^verbatim>\<open>{pip!r}\<close>); \<open>load\<close> is \<^verbatim>\<open>lockfile.load\<close>, which
  returns the document or raises; \<open>unique_targets\<close> is
  \<^verbatim>\<open>target_options.configure(self.options).unique_targets()\<close> in iteration order;
  \<open>select\<close> is \<^verbatim>\<open>lf.select(targets)\<close>, fully iterated; \<open>platform_tag\<close> is
  \<^verbatim>\<open>str(lock.platform_tag)\<close>; \<open>str_target\<close> and \<open>repr_target\<close> are \<^verbatim>\<open>str\<close> and
  \<^verbatim>\<open>repr\<close> of a target. Opening the output and writing to it are taken to succeed.
\<close>

record ('t, 'r, 'q) export_env =
  repr_format :: "ExportFormat \<Rightarrow> string"
  load :: "string \<Rightarrow> exn + ('q, 'r) Lockfile"
  unique_targets :: "'t list"
  select :: "('q, 'r) Lockfile \<Rightarrow> 't list \<Rightarrow> ('t \<times> 'r) list"
  platform_tag :: "'r \<Rightarrow> string"
  str_target :: "'t \<Rightarrow> string"
  repr_target :: "'t \<Rightarrow> string"

text \<open>The message of the first \<^verbatim>\<open>return Error(...)\<close>.\<close>

definition unsupported_format_message :: "('t, 'r, 'q) export_env \<Rightarrow> string" where
  "unsupported_format_message E =
     ''Only the '' @ repr_format E PIP @ '' lock format is supported currently.''"

text \<open>The message of the \<^verbatim>\<open>if not selected_locks\<close> branch.\<close>

definition no_applicable_message ::
  "('t, 'r, 'q) export_env \<Rightarrow> 'r list \<Rightarrow> string \<Rightarrow> 't list \<Rightarrow> string" where
  "no_applicable_message E locks lockfile_path targets =
     ''Of the '' @ str_nat (length locks) @ '' '' @ pluralize locks ''lock'' @ '' stored in ''
     @ lockfile_path @ '', none were applicable for the selected targets:'' @ NL
     @ join NL (map (\<lambda>(index, target). str_nat index @ ''.) '' @ str_target E target)
                    (enumerate_from 1 targets))"

text \<open>
  The message of the last \<^verbatim>\<open>return Error(...)\<close>. Inside the generator expression the
  name \<^verbatim>\<open>targets\<close> is the loop variable, the target list of the group.
\<close>

definition multiple_applicable_message ::
  "('t, 'r, 'q) export_env \<Rightarrow> 'r list \<Rightarrow> string \<Rightarrow> ('r \<times> 't list) list \<Rightarrow> string" where
  "multiple_applicable_message E locks lockfile_path selected =
     ''Only a single lock can be exported in the '' @ repr_format E PIP @ '' format.'' @ NL
     @ ''There '' @ (if length locks = 1 then ''was'' else ''were'') @ '' ''
     @ str_nat (length locks) @ '' '' @ pluralize locks ''lock'' @ '' stored in ''
     @ lockfile_path @ '' that were applicable for the selected targets:'' @ NL
     @ join NL (map (\<lambda>(index, (lock, targets)).
                       str_nat index @ ''.) '' @ platform_tag E lock @ '': ''
                       @ str_list (repr_target E) targets)
                    (enumerate_from 1 selected))"

text \<open>
  The command returns its outcome and the outside calls it made. \<^verbatim>\<open>popitem\<close> removes
  and returns the last item of the dictionary, here its only one. \<^verbatim>\<open>TRACER.timed\<close>
  only logs and is left out.
\<close>

definition Lock_export ::
  "('t, 'r, 'q) export_env \<Rightarrow> export_options
   \<Rightarrow> outcome \<times> ('r, ('q, 'r) Lockfile) event list" where
  "Lock_export E opts =
     (if format opts \<noteq> PIP then (Return (Error (unsupported_format_message E)), [])
      else
        case lockfile opts of
          [] \<Rightarrow> (Raise IndexError, [])
        | lockfile_path # _ \<Rightarrow>
            (case load E lockfile_path of
               Inl (ParseError e) \<Rightarrow> (Return (Error e), [Load lockfile_path])
             | Inl x \<Rightarrow> (Raise x, [Load lockfile_path])
             | Inr lf \<Rightarrow>
                 (let targets = unique_targets E;
                      selected = selected_locks (select E lf targets)
                  in
                    if length selected = 1 then
                      (let (locked_resolve, _) = last selected
                       in (Return Ok,
                           [Load lockfile_path, Open_output, Emit_requirements locked_resolve,
                            Close_output]))
                    else
                      (let locks = locked_resolves lf
                       in
                         if selected = [] then
                           (Return (Error (no_applicable_message E locks lockfile_path targets)),
                            [Load lockfile_path])
                         else
                           (Return (Error (multiple_applicable_message E locks lockfile_path
                                             selected)),
                            [Load lockfile_path])))))"

subsection \<open>\<^verbatim>\<open>Lock._create\<close>\<close>

text \<open>The fields of \<^verbatim>\<open>pip_configuration\<close> that reach the lock document.\<close>

record pip_configuration =
  pip_resolver_version :: string
  pip_allow_prereleases :: bool
  pip_allow_wheels :: bool
  pip_allow_builds :: bool
  pip_transitive :: bool

text \<open>
  What the command calls outside this file, for the options of one invocation.
  \<open>parse_requirements\<close> and \<open>parse_constraints\<close> are the sequences that
  \<^verbatim>\<open>requirement_configuration.parse_requirements(network_configuration)\<close> and
  \<^verbatim>\<open>parse_constraints(network_configuration)\<close> yield; \<open>download\<close> is the outcome of
  \<^verbatim>\<open>resolver.download(...)\<close> on the configured arguments, an exception or
  \<^verbatim>\<open>downloaded.locked_resolves\<close>; \<open>version\<close> is \<^verbatim>\<open>pex.version.__version__\<close>.
  Opening the output and writing to it are taken to succeed.
\<close>

record ('q, 'r) create_env =
  parse_requirements :: "'q ParsedRequirement list"
  parse_constraints :: "'q Constraint list"
  pip :: pip_configuration
  download :: "exn + 'r list"
  version :: string

text \<open>
  One turn of the loop over the parsed requirements, on the pair of lists
  \<^verbatim>\<open>(requirements, local_projects)\<close>.
\<close>

fun partition_step ::
  "'q list \<times> 'q ParsedRequirement list \<Rightarrow> 'q ParsedRequirement
   \<Rightarrow> 'q list \<times> 'q ParsedRequirement list" where
  "partition_step (reqs, local_projects) (LocalProjectRequirement p) =
     (reqs, local_projects @ [LocalProjectRequirement p])"
| "partition_step (reqs, local_projects) (NamedRequirement q) =
     (reqs @ [q], local_projects)"

text \<open>The message of \<^verbatim>\<open>if local_projects: return Error(...)\<close>.\<close>

definition local_projects_message :: "'q ParsedRequirement list \<Rightarrow> string" where
  "local_projects_message local_projects =
     ''Cannot create a lock for local project requirements. Given ''
     @ str_nat (length local_projects) @ '':'' @ NL
     @ join NL (map (\<lambda>(index, project). str_nat index @ ''.) '' @ path project)
                    (enumerate_from 1 local_projects))"

definition Lock_create ::
  "('q, 'r) create_env \<Rightarrow> outcome \<times> ('r, ('q, 'r) Lockfile) event list" where
  "Lock_create E =
     (let (reqs, local_projects) = foldl partition_step ([], []) (parse_requirements E)
      in
        if local_projects \<noteq> [] then (Return (Error (local_projects_message local_projects)), [])
        else
          (let cons = map constraint_requirement (parse_constraints E)
           in
             case download E of
               Inl x \<Rightarrow> (Raise x, [Download])
             | Inr locked \<Rightarrow>
                 (let lf = Lockfile_create (version E) (pip_resolver_version (pip E)) reqs cons
                             (pip_allow_prereleases (pip E)) (pip_allow_wheels (pip E))
                             (pip_allow_builds (pip E)) (pip_transitive (pip E)) locked
                  in (Return Ok, [Download, Open_output, Dump_json lf, Close_output]))))"

subsection \<open>Vocabulary of the properties\<close>

text \<open>The calls that open, write to or close the output.\<close>

fun touches_output :: "('r, 'd) event \<Rightarrow> bool" where
  "touches_output Download = False"
| "touches_output (Load p) = False"
| "touches_output Open_output = True"
| "touches_output (Emit_requirements r) = True"
| "touches_output (Dump_json d) = True"
| "touches_output Close_output = True"

text \<open>
  The unique-group path of the export: the format is the supported one, the document at
  the given path loads, and the grouping of its selection stream has exactly one key.
\<close>

definition unique_group :: "('t, 'r, 'q) export_env \<Rightarrow> export_options \<Rightarrow> bool" where
  "unique_group E opts =
     (format opts = PIP \<and>
      (case lockfile opts of
         [] \<Rightarrow> False
       | p # _ \<Rightarrow>
           (case load E p of
              Inl x \<Rightarrow> False
            | Inr lf \<Rightarrow> length (selected_locks (select E lf (unique_targets E))) = 1)))"

subsection \<open>Example invocations\<close>

text \<open>
  The documents of the specification's examples: locked resolves, named by their platform
  label, for \<^verbatim>\<open>linux_x86_64\<close> and \<^verbatim>\<open>macosx_x86_64\<close>, or for the first only. A
  target is a pair of an interpreter tag and a platform, a locked resolve applies to the
  targets of its platform, and the only document is stored at \<^verbatim>\<open>lock.json\<close>.
\<close>

definition two_locks :: "(string, string) Lockfile" where
  "two_locks = Lockfile_create ''2.1.50'' ''pip-legacy-resolver'' [''requests''] [] False True True
     True [''linux_x86_64'', ''macosx_x86_64'']"

definition one_lock :: "(string, string) Lockfile" where
  "one_lock = Lockfile_create ''2.1.50'' ''pip-legacy-resolver'' [''requests''] [] False True True
     True [''linux_x86_64'']"

definition example_env ::
  "(string, string) Lockfile \<Rightarrow> (string \<times> string) list
   \<Rightarrow> (string \<times> string, string, string) export_env" where
  "example_env lf targets =
     \<lparr>repr_format = (\<lambda>f. [CHR 0x27] @ format_value f @ [CHR 0x27]),
      load = (\<lambda>p. if p = ''lock.json'' then Inr lf else Inl (ParseError ''bad document'')),
      unique_targets = targets,
      select = Lockfile_select (\<lambda>r t. snd t = r),
      platform_tag = (\<lambda>r. r),
      str_target = (\<lambda>t. fst t @ ''-'' @ snd t),
      repr_target = (\<lambda>t. fst t @ ''-'' @ snd t)\<rparr>"

definition example_options :: "ExportFormat \<Rightarrow> string \<Rightarrow> export_options" where
  "example_options f p = \<lparr>format = f, lockfile = [p]\<rparr>"

definition example_create_env ::
  "string ParsedRequirement list \<Rightarrow> exn + string list \<Rightarrow> (string, string) create_env" where
  "example_create_env parsed downloaded =
     \<lparr>parse_requirements = parsed,
      parse_constraints = [Constraint ''urllib3<2''],
      pip = \<lparr>pip_resolver_version = ''pip-legacy-resolver'', pip_allow_prereleases = False,
             pip_allow_wheels = True, pip_allow_builds = True, pip_transitive = True\<rparr>,
      download = downloaded,
      version = ''2.1.50''\<rparr>"

section \<open>Properties\<close>

subsection \<open>Lemmas on the grouping, the enumeration and the partition\<close>

lemma first_seen_snoc:
  "first_seen (xs @ [x]) = (if x \<in> set (first_seen xs) then first_seen xs else first_seen xs @ [x])"
  by (simp add: first_seen_def)

lemma set_first_seen: "set (first_seen xs) = set xs"
  by (induction xs rule: rev_induct) (auto simp: first_seen_snoc first_seen_def)

lemma distinct_first_seen: "distinct (first_seen xs)"
  by (induction xs rule: rev_induct) (auto simp: first_seen_snoc first_seen_def)

lemma selected_locks_snoc:
  "selected_locks (s @ [(t, r)]) = dd_append (selected_locks s) r t"
  by (simp add: selected_locks_def)

lemma dd_append_absent:
  "r \<notin> set ks \<Longrightarrow> dd_append (map (\<lambda>k. (k, g k)) ks) r t = map (\<lambda>k. (k, g k)) ks @ [(r, [t])]"
  by (induction ks) auto

lemma dd_append_present:
  "r \<in> set ks \<Longrightarrow> distinct ks \<Longrightarrow>
   dd_append (map (\<lambda>k. (k, g k)) ks) r t = map (\<lambda>k. (k, if k = r then g k @ [t] else g k)) ks"
  by (induction ks) auto

lemma targets_of_snoc:
  "targets_of (s @ [(t, r)]) k = (if k = r then targets_of s k @ [t] else targets_of s k)"
  by (simp add: targets_of_def)

lemma targets_of_absent: "r \<notin> snd ` set s \<Longrightarrow> targets_of s r = []"
  by (induction s) (auto simp: targets_of_def)

lemma selected_locks_grouping: "selected_locks stream = grouping_spec stream"
proof (induction stream rule: rev_induct)
  case Nil
  show ?case by (simp add: selected_locks_def grouping_spec_def first_seen_def)
next
  case (snoc p s)
  obtain t r where p: "p = (t, r)" by (cases p)
  let ?ks = "first_seen (map snd s)"
  have IH: "selected_locks s = map (\<lambda>k. (k, targets_of s k)) ?ks"
    using snoc.IH by (simp add: grouping_spec_def)
  show ?case
  proof (cases "r \<in> set ?ks")
    case True
    have "selected_locks (s @ [p]) = map (\<lambda>k. (k, if k = r then targets_of s k @ [t] else targets_of s k)) ?ks"
      using True by (simp add: p selected_locks_snoc IH dd_append_present distinct_first_seen)
    also have "\<dots> = grouping_spec (s @ [p])"
      using True by (simp add: p grouping_spec_def first_seen_snoc targets_of_snoc)
    finally show ?thesis .
  next
    case False
    then have absent: "targets_of s r = []"
      by (simp add: targets_of_absent set_first_seen)
    have "selected_locks (s @ [p]) = map (\<lambda>k. (k, targets_of s k)) ?ks @ [(r, [t])]"
      using False by (simp add: p selected_locks_snoc IH dd_append_absent)
    also have "\<dots> = grouping_spec (s @ [p])"
      using False absent by (auto simp: p grouping_spec_def first_seen_snoc targets_of_snoc)
    finally show ?thesis .
  qed
qed

lemma first_seen_Cons: "first_seen (x # xs) = x # filter (\<lambda>y. y \<noteq> x) (first_seen xs)"
proof (induction xs rule: rev_induct)
  case Nil
  show ?case by (simp add: first_seen_def)
next
  case (snoc y ys)
  have "first_seen (x # ys @ [y]) = first_seen ((x # ys) @ [y])" by simp
  also have "\<dots> = (if y \<in> set (first_seen (x # ys)) then first_seen (x # ys) else first_seen (x # ys) @ [y])"
    by (rule first_seen_snoc)
  finally show ?case
    using snoc.IH by (auto simp: first_seen_snoc set_first_seen)
qed

lemma length_selected_locks: "length (selected_locks s) = card (snd ` set s)"
proof -
  have "length (selected_locks s) = length (first_seen (map snd s))"
    by (simp add: selected_locks_grouping grouping_spec_def)
  also have "\<dots> = card (set (first_seen (map snd s)))"
    by (simp add: distinct_card distinct_first_seen)
  finally show ?thesis by (simp add: set_first_seen)
qed

lemma selected_locks_Nil_iff: "selected_locks s = [] \<longleftrightarrow> s = []"
  by (simp add: selected_locks_grouping grouping_spec_def set_first_seen flip: set_empty)

lemma selected_locks_single:
  assumes "s \<noteq> []" and "snd ` set s \<subseteq> {r}"
  shows "selected_locks s = [(r, map fst s)]"
proof -
  from assms have keys: "snd ` set s = {r}" by (cases s) auto
  have "length (first_seen (map snd s)) = 1"
    using length_selected_locks [of s] keys
    by (simp add: selected_locks_grouping grouping_spec_def)
  moreover have "set (first_seen (map snd s)) = {r}"
    using keys by (simp add: set_first_seen)
  ultimately have "first_seen (map snd s) = [r]"
    by (cases "first_seen (map snd s)") auto
  moreover have "filter (\<lambda>p. snd p = r) s = s"
    using assms(2) by (auto simp: filter_id_conv)
  ultimately show ?thesis
    by (simp add: selected_locks_grouping grouping_spec_def targets_of_def)
qed

lemma map_enumerate_from:
  "map f (enumerate_from k xs) = map (\<lambda>i. f (k + i, xs ! i)) [0..<length xs]"
proof (induction xs arbitrary: k)
  case Nil
  show ?case by simp
next
  case (Cons x xs)
  have "map (\<lambda>i. f (k + i, (x # xs) ! i)) [0..<length (x # xs)]
        = f (k, x) # map (\<lambda>i. f (k + i, (x # xs) ! i)) (map Suc [0..<length xs])"
    by (simp add: upt_conv_Cons map_Suc_upt del: upt_Suc)
  also have "\<dots> = f (k, x) # map (\<lambda>i. f (Suc k + i, xs ! i)) [0..<length xs]"
    by simp
  finally show ?case using Cons.IH [of "Suc k"] by simp
qed

lemma partition_fold:
  "foldl partition_step (reqs, lps) ps =
     (reqs @ [q. NamedRequirement q \<leftarrow> ps], lps @ filter is_LocalProjectRequirement ps)"
  by (induction ps arbitrary: reqs lps) (auto split: ParsedRequirement.splits)

lemma local_project_paths: "map path (filter is_LocalProjectRequirement ps) = [p. LocalProjectRequirement p \<leftarrow> ps]"
  by (induction ps) (auto split: ParsedRequirement.splits)

subsection \<open>Evaluation of the examples\<close>

lemma str_nat_small: "str_nat 0 = ''0''" "str_nat 1 = ''1''" "str_nat 2 = ''2''"
  "str_nat (Suc 0) = ''1''" "str_nat (Suc (Suc 0)) = ''2''"
  by code_simp+

lemmas example_defs = example_env_def example_options_def two_locks_def one_lock_def
  Lockfile_create_def Lockfile_select_def

subsection \<open>The grouping step\<close>

text \<open>
  Claim C7. The grouping step of the export is one fold over the (target, locked resolve)
  pairs of the selection stream. Its result maps every locked resolve of the stream to the
  targets paired with it, in stream order; the keys are in the order in which the stream
  first shows them and no key occurs twice. The dictionary is taken to iterate in
  insertion order.
\<close>

theorem grouping_first_seen_order:
  "selected_locks stream = grouping_spec stream \<and> distinct (map fst (selected_locks stream))"
  using selected_locks_grouping [of stream] distinct_first_seen [of "map snd stream"]
  by (simp add: grouping_spec_def comp_def)

theorem grouping_first_seen_order_witness:
  "selected_locks [((''cp39'', ''linux_x86_64''), ''linux_x86_64''),
                   ((''cp310'', ''macosx_x86_64''), ''macosx_x86_64''),
                   ((''cp38'', ''linux_x86_64''), ''linux_x86_64'')]
   = [(''linux_x86_64'', [(''cp39'', ''linux_x86_64''), (''cp38'', ''linux_x86_64'')]),
      (''macosx_x86_64'', [(''cp310'', ''macosx_x86_64'')])]"
  using grouping_first_seen_order
    [of "[((''cp39'', ''linux_x86_64''), ''linux_x86_64''),
          ((''cp310'', ''macosx_x86_64''), ''macosx_x86_64''),
          ((''cp38'', ''linux_x86_64''), ''linux_x86_64'')]"]
  by (simp add: grouping_spec_def first_seen_def targets_of_def)

subsection \<open>Export: the decision by the number of groups\<close>

text \<open>
  Claim C1. Let the document at the given path load and store exactly one locked resolve,
  let the target set be non-empty, and let the selection stream pair every target with
  that resolve and yield stored resolves only. Then the grouping has that resolve as its
  only key, and the export of the supported format returns success after opening the
  output, emitting the requirements of that resolve to it and closing it.
\<close>

theorem export_single_resolve:
  assumes "format opts = PIP" and "lockfile opts = lockfile_path # rest"
    and "load E lockfile_path = Inr lf"
    and "locked_resolves lf = [r]"
    and "unique_targets E \<noteq> []"
    and "\<forall>t \<in> set (unique_targets E). (t, r) \<in> set (select E lf (unique_targets E))"
    and "snd ` set (select E lf (unique_targets E)) \<subseteq> set (locked_resolves lf)"
  shows "map fst (selected_locks (select E lf (unique_targets E))) = [r] \<and>
         Lock_export E opts =
           (Return Ok, [Load lockfile_path, Open_output, Emit_requirements r, Close_output])"
proof -
  let ?s = "select E lf (unique_targets E)"
  have "?s \<noteq> []" using assms(5,6) by (cases "unique_targets E") auto
  moreover have "snd ` set ?s \<subseteq> {r}" using assms(4,7) by simp
  ultimately have "selected_locks ?s = [(r, map fst ?s)]" by (rule selected_locks_single)
  then show ?thesis using assms(1-3) by (simp add: Lock_export_def)
qed

theorem export_single_resolve_witness:
  "Lock_export (example_env one_lock [(''cp39'', ''linux_x86_64''), (''cp310'', ''linux_x86_64'')])
     (example_options PIP ''lock.json'')
   = (Return Ok, [Load ''lock.json'', Open_output, Emit_requirements ''linux_x86_64'', Close_output])"
proof -
  let ?E = "example_env one_lock [(''cp39'', ''linux_x86_64''), (''cp310'', ''linux_x86_64'')]"
  let ?opts = "example_options PIP ''lock.json''"
  have h1: "format ?opts = PIP" and h2: "lockfile ?opts = ''lock.json'' # []"
    and h3: "load ?E ''lock.json'' = Inr one_lock"
    and h4: "locked_resolves one_lock = [''linux_x86_64'']"
    and h5: "unique_targets ?E \<noteq> []"
    by (simp_all add: example_defs)
  have h6: "\<forall>t \<in> set (unique_targets ?E).
              (t, ''linux_x86_64'') \<in> set (select ?E one_lock (unique_targets ?E))"
    by (simp add: example_defs)
  have h7: "snd ` set (select ?E one_lock (unique_targets ?E)) \<subseteq> set (locked_resolves one_lock)"
    by (simp add: example_defs)
  show ?thesis using export_single_resolve [OF h1 h2 h3 h4 h5 h6 h7] by simp
qed

text \<open>
  Claim C2. When the selection stream of the loaded document names two or more distinct
  locked resolves, the export of the supported format returns an error and touches no
  output. The message says that only a single lock can be exported in the supported
  format, gives the number of locks stored in the document, with \<^verbatim>\<open>was\<close> and
  \<^verbatim>\<open>lock\<close> for one and \<^verbatim>\<open>were\<close> and \<^verbatim>\<open>locks\<close> otherwise, names the path of the
  document, and has one entry for each distinct locked resolve of the stream, in
  first-seen order and numbered from 1: the platform label of the resolve and the whole
  list of the targets paired with it.
\<close>

theorem export_multiple_resolves:
  assumes "format opts = PIP" and "lockfile opts = lockfile_path # rest"
    and "load E lockfile_path = Inr lf"
    and "2 \<le> card (snd ` set (select E lf (unique_targets E)))"
  shows "let stream = select E lf (unique_targets E);
             locks = first_seen (map snd stream);
             n = length (locked_resolves lf);
             entries = map (\<lambda>i. str_nat (Suc i) @ ''.) '' @ platform_tag E (locks ! i) @ '': ''
                               @ str_list (repr_target E) (targets_of stream (locks ! i)))
                           [0..<length locks]
         in Lock_export E opts =
              (Return (Error (
                 ''Only a single lock can be exported in the '' @ repr_format E PIP @ '' format.''
                 @ NL @ ''There '' @ (if n = 1 then ''was'' else ''were'') @ '' '' @ str_nat n
                 @ '' '' @ (if n = 1 then ''lock'' else ''locks'') @ '' stored in ''
                 @ lockfile_path @ '' that were applicable for the selected targets:'' @ NL
                 @ join NL entries)),
               [Load lockfile_path])
            \<and> distinct locks \<and> set locks = snd ` set stream
            \<and> length entries = card (snd ` set stream)"
proof -
  let ?s = "select E lf (unique_targets E)"
  let ?ks = "first_seen (map snd ?s)"
  have len: "length (selected_locks ?s) = card (snd ` set ?s)" by (rule length_selected_locks)
  have not1: "length (selected_locks ?s) \<noteq> 1" and ne: "selected_locks ?s \<noteq> []"
    using assms(4) len by auto
  have lenks: "length ?ks = card (snd ` set ?s)"
    using len by (simp add: selected_locks_grouping grouping_spec_def)
  have entries:
    "map (\<lambda>(index, (lock, targets)).
            str_nat index @ ''.) '' @ platform_tag E lock @ '': '' @ str_list (repr_target E) targets)
         (enumerate_from 1 (selected_locks ?s))
     = map (\<lambda>i. str_nat (Suc i) @ ''.) '' @ platform_tag E (?ks ! i) @ '': ''
                  @ str_list (repr_target E) (targets_of ?s (?ks ! i)))
           [0..<length ?ks]"
    by (simp add: map_enumerate_from selected_locks_grouping grouping_spec_def)
  have "Lock_export E opts =
          (Return (Error (multiple_applicable_message E (locked_resolves lf) lockfile_path
                            (selected_locks ?s))), [Load lockfile_path])"
    using assms(1-3) not1 ne by (simp add: Lock_export_def Let_def)
  then show ?thesis
    unfolding multiple_applicable_message_def entries
    by (simp add: Let_def pluralize_def distinct_first_seen set_first_seen lenks)
qed

theorem export_multiple_resolves_witness:
  "Lock_export (example_env two_locks [(''cp39'', ''linux_x86_64''), (''cp310'', ''macosx_x86_64'')])
     (example_options PIP ''lock.json'')
   = (Return (Error (''Only a single lock can be exported in the '' @ [CHR 0x27] @ ''pip''
        @ [CHR 0x27] @ '' format.'' @ NL
        @ ''There were 2 locks stored in lock.json that were applicable for the selected targets:''
        @ NL @ ''1.) linux_x86_64: [cp39-linux_x86_64]'' @ NL
        @ ''2.) macosx_x86_64: [cp310-macosx_x86_64]'')),
      [Load ''lock.json''])"
proof -
  let ?E = "example_env two_locks [(''cp39'', ''linux_x86_64''), (''cp310'', ''macosx_x86_64'')]"
  let ?opts = "example_options PIP ''lock.json''"
  have h1: "format ?opts = PIP" and h2: "lockfile ?opts = ''lock.json'' # []"
    and h3: "load ?E ''lock.json'' = Inr two_locks"
    by (simp_all add: example_defs)
  have stream: "select ?E two_locks (unique_targets ?E)
                = [((''cp39'', ''linux_x86_64''), ''linux_x86_64''),
                   ((''cp310'', ''macosx_x86_64''), ''macosx_x86_64'')]"
    by (simp add: example_defs)
  have h4: "2 \<le> card (snd ` set (select ?E two_locks (unique_targets ?E)))"
    unfolding stream by simp
  show ?thesis
    using export_multiple_resolves [OF h1 h2 h3 h4] unfolding stream
    by (simp add: Let_def first_seen_def targets_of_def str_list_def str_nat_small NL_def
        example_defs upt_rec [of 0])
qed

text \<open>
  Claim C3. When the selection stream of the loaded document is empty, the export of the
  supported format returns an error. The message gives the number of locked resolves
  stored in the document, with the word \<^verbatim>\<open>lock\<close> for one and \<^verbatim>\<open>locks\<close>
  otherwise, names the path of the document, and lists the targets numbered from 1, with
  as many entries as there are targets.
\<close>

theorem export_no_applicable_resolve:
  assumes "format opts = PIP" and "lockfile opts = lockfile_path # rest"
    and "load E lockfile_path = Inr lf"
    and "select E lf (unique_targets E) = []"
  shows "let targets = unique_targets E;
             n = length (locked_resolves lf);
             entries = map (\<lambda>i. str_nat (Suc i) @ ''.) '' @ str_target E (targets ! i))
                           [0..<length targets]
         in Lock_export E opts =
              (Return (Error (
                 ''Of the '' @ str_nat n @ '' '' @ (if n = 1 then ''lock'' else ''locks'')
                 @ '' stored in '' @ lockfile_path
                 @ '', none were applicable for the selected targets:'' @ NL
                 @ join NL entries)),
               [Load lockfile_path])
            \<and> length entries = length targets"
proof -
  have sel: "selected_locks (select E lf (unique_targets E)) = []"
    using assms(4) by (simp add: selected_locks_def)
  have "Lock_export E opts =
          (Return (Error (no_applicable_message E (locked_resolves lf) lockfile_path
                            (unique_targets E))), [Load lockfile_path])"
    using assms(1-3) sel by (simp add: Lock_export_def Let_def)
  then show ?thesis
    unfolding no_applicable_message_def
    by (simp add: Let_def pluralize_def map_enumerate_from)
qed

theorem export_no_applicable_resolve_witness:
  "Lock_export (example_env one_lock [(''cp39'', ''win32''), (''cp310'', ''win32'')])
     (example_options PIP ''lock.json'')
   = (Return (Error (
        ''Of the 1 lock stored in lock.json, none were applicable for the selected targets:''
        @ NL @ ''1.) cp39-win32'' @ NL @ ''2.) cp310-win32'')),
      [Load ''lock.json''])"
proof -
  let ?E = "example_env one_lock [(''cp39'', ''win32''), (''cp310'', ''win32'')]"
  let ?opts = "example_options PIP ''lock.json''"
  have h1: "format ?opts = PIP" and h2: "lockfile ?opts = ''lock.json'' # []"
    and h3: "load ?E ''lock.json'' = Inr one_lock"
    and h4: "select ?E one_lock (unique_targets ?E) = []"
    by (simp_all add: example_defs)
  show ?thesis
    using export_no_applicable_resolve [OF h1 h2 h3 h4]
    by (simp add: Let_def str_nat_small NL_def example_defs upt_rec [of 0])
qed

text \<open>
  Claim C10. When the document loads and the target set is empty, the selection stream,
  which has the pairs of every target in turn, is empty, so the export of the supported
  format does not succeed: it returns the error of no applicable lock, with the number of
  locked resolves stored in the document and no entry in the list of targets.
\<close>

theorem export_no_targets:
  assumes "format opts = PIP" and "lockfile opts = lockfile_path # rest"
    and "load E lockfile_path = Inr lf"
    and "select E = Lockfile_select applies_to"
    and "unique_targets E = []"
  shows "select E lf (unique_targets E) = [] \<and>
         Lock_export E opts =
           (let n = length (locked_resolves lf)
            in (Return (Error (
                  ''Of the '' @ str_nat n @ '' '' @ (if n = 1 then ''lock'' else ''locks'')
                  @ '' stored in '' @ lockfile_path
                  @ '', none were applicable for the selected targets:'' @ NL)),
                [Load lockfile_path]))"
proof -
  have empty: "select E lf (unique_targets E) = []"
    using assms(4,5) by (simp add: Lockfile_select_def)
  then have sel: "selected_locks (select E lf (unique_targets E)) = []"
    by (simp add: selected_locks_def)
  have "Lock_export E opts =
          (Return (Error (no_applicable_message E (locked_resolves lf) lockfile_path [])),
           [Load lockfile_path])"
    using assms(1-3,5) sel by (simp add: Lock_export_def Let_def)
  then show ?thesis
    using empty unfolding no_applicable_message_def
    by (simp add: Let_def pluralize_def)
qed

theorem export_no_targets_witness:
  "Lock_export (example_env two_locks []) (example_options PIP ''lock.json'')
   = (Return (Error (
        ''Of the 2 locks stored in lock.json, none were applicable for the selected targets:''
        @ NL)),
      [Load ''lock.json''])"
proof -
  let ?E = "example_env two_locks []"
  let ?opts = "example_options PIP ''lock.json''"
  have h1: "format ?opts = PIP" and h2: "lockfile ?opts = ''lock.json'' # []"
    and h3: "load ?E ''lock.json'' = Inr two_locks"
    and h4: "select ?E = Lockfile_select (\<lambda>r t. snd t = r)"
    and h5: "unique_targets ?E = []"
    by (simp_all add: example_env_def example_options_def)
  show ?thesis
    using export_no_targets [OF h1 h2 h3 h4 h5]
    by (simp add: Let_def str_nat_small NL_def two_locks_def Lockfile_create_def)
qed

subsection \<open>Export: the failures before the selection\<close>

text \<open>
  Claim C6. For every format other than \<^verbatim>\<open>pip\<close>, so for \<^verbatim>\<open>pep-665\<close>, the export
  returns an error that names the supported format, without loading the document or
  making any other outside call: the outcome is the same whatever the loader does and
  whatever path is given.
\<close>

theorem export_unsupported_format:
  assumes "format opts \<noteq> PIP"
  shows "Lock_export E opts =
           (Return (Error (''Only the '' @ repr_format E PIP
                           @ '' lock format is supported currently.'')), []) \<and>
         Lock_export (E\<lparr>load := load'\<rparr>) (opts\<lparr>lockfile := paths'\<rparr>) = Lock_export E opts"
  using assms by (simp add: Lock_export_def unsupported_format_message_def)

theorem export_unsupported_format_witness:
  "Lock_export (example_env two_locks [(''cp39'', ''linux_x86_64'')])
     (example_options PEP_665 ''missing.json'')
   = (Return (Error (''Only the '' @ [CHR 0x27] @ ''pip'' @ [CHR 0x27]
                     @ '' lock format is supported currently.'')), [])"
proof -
  have h: "format (example_options PEP_665 ''missing.json'') \<noteq> PIP"
    by (simp add: example_options_def)
  show ?thesis
    using export_unsupported_format [OF h, of "example_env two_locks [(''cp39'', ''linux_x86_64'')]"]
    by (simp add: example_env_def)
qed

text \<open>
  Claim C8. When loading the document at the given path raises a parse error, the export
  of the supported format returns an error whose message is the text of that parse
  error, and the exception does not leave the command.
\<close>

theorem export_parse_error:
  assumes "format opts = PIP" and "lockfile opts = lockfile_path # rest"
    and "load E lockfile_path = Inl (ParseError message)"
  shows "Lock_export E opts = (Return (Error message), [Load lockfile_path])"
  using assms by (simp add: Lock_export_def)

theorem export_parse_error_witness:
  "Lock_export (example_env two_locks [(''cp39'', ''linux_x86_64'')])
     (example_options PIP ''broken.json'')
   = (Return (Error ''bad document''), [Load ''broken.json''])"
proof -
  let ?E = "example_env two_locks [(''cp39'', ''linux_x86_64'')]"
  let ?opts = "example_options PIP ''broken.json''"
  have h1: "format ?opts = PIP" and h2: "lockfile ?opts = ''broken.json'' # []"
    and h3: "load ?E ''broken.json'' = Inl (ParseError ''bad document'')"
    by (simp_all add: example_env_def example_options_def)
  show ?thesis by (rule export_parse_error [OF h1 h2 h3])
qed

text \<open>
  Claim C9. The export does not succeed in part. Whenever it does not return success, it
  has neither opened the output nor written to it. It returns success on the unique-group
  path only, and then its outside calls are the load of the document followed by opening
  the output, emitting the requirements of one locked resolve and closing the output.
\<close>

theorem export_all_or_nothing:
  "(fst (Lock_export E opts) \<noteq> Return Ok \<longrightarrow>
      (\<forall>e \<in> set (snd (Lock_export E opts)). \<not> touches_output e)) \<and>
   (fst (Lock_export E opts) = Return Ok \<longrightarrow>
      (\<exists>p r. snd (Lock_export E opts) = [Load p, Open_output, Emit_requirements r, Close_output])) \<and>
   (fst (Lock_export E opts) = Return Ok \<longleftrightarrow> unique_group E opts)"
  by (auto simp: Lock_export_def unique_group_def Let_def
           split: list.splits sum.splits exn.splits prod.splits)

theorem export_all_or_nothing_witness:
  "filter touches_output
     (snd (Lock_export
             (example_env two_locks [(''cp39'', ''linux_x86_64''), (''cp310'', ''macosx_x86_64'')])
             (example_options PIP ''lock.json'')))
   = [] \<and>
   fst (Lock_export
          (example_env two_locks [(''cp39'', ''linux_x86_64''), (''cp310'', ''linux_x86_64'')])
          (example_options PIP ''lock.json''))
   = Return Ok \<and>
   length (snd (Lock_export
                  (example_env two_locks
                     [(''cp39'', ''linux_x86_64''), (''cp310'', ''linux_x86_64'')])
                  (example_options PIP ''lock.json'')))
   = 4"
proof -
  let ?E2 = "example_env two_locks [(''cp39'', ''linux_x86_64''), (''cp310'', ''macosx_x86_64'')]"
  let ?E1 = "example_env two_locks [(''cp39'', ''linux_x86_64''), (''cp310'', ''linux_x86_64'')]"
  let ?opts = "example_options PIP ''lock.json''"
  have many: "\<not> unique_group ?E2 ?opts"
    by (simp add: unique_group_def selected_locks_def example_defs)
  have one: "unique_group ?E1 ?opts"
    by (simp add: unique_group_def selected_locks_def example_defs)
  have "\<forall>e \<in> set (snd (Lock_export ?E2 ?opts)). \<not> touches_output e"
    using many export_all_or_nothing [of ?E2 ?opts] by blast
  then have none: "filter touches_output (snd (Lock_export ?E2 ?opts)) = []"
    by (simp add: filter_empty_conv)
  have ok: "fst (Lock_export ?E1 ?opts) = Return Ok"
    using one export_all_or_nothing [of ?E1 ?opts] by blast
  then obtain p r where "snd (Lock_export ?E1 ?opts)
                         = [Load p, Open_output, Emit_requirements r, Close_output]"
    using export_all_or_nothing [of ?E1 ?opts] by blast
  then have "length (snd (Lock_export ?E1 ?opts)) = 4" by simp
  with none ok show ?thesis by blast
qed

subsection \<open>Create\<close>

text \<open>
  Claim C4. When the parsed requirements hold at least one local project, the creation
  returns an error without calling the download, and without any other outside call. The
  message gives the number of local projects and lists the path of each of them, in the
  order of the input and numbered from 1.
\<close>

theorem create_rejects_local_projects:
  assumes "\<exists>p \<in> set (parse_requirements E). is_LocalProjectRequirement p"
  shows "let paths = [p. LocalProjectRequirement p \<leftarrow> parse_requirements E];
             entries = map (\<lambda>i. str_nat (Suc i) @ ''.) '' @ paths ! i) [0..<length paths]
         in Lock_create E =
              (Return (Error (
                 ''Cannot create a lock for local project requirements. Given ''
                 @ str_nat (length paths) @ '':'' @ NL @ join NL entries)),
               [])
            \<and> 0 < length paths"
proof -
  let ?ps = "parse_requirements E"
  let ?lps = "filter is_LocalProjectRequirement ?ps"
  let ?paths = "[p. LocalProjectRequirement p \<leftarrow> ?ps]"
  have ne: "?lps \<noteq> []" using assms by (auto simp: filter_empty_conv)
  have paths: "map path ?lps = ?paths" by (rule local_project_paths)
  then have len: "length ?paths = length ?lps" by (metis length_map)
  have "map (\<lambda>(index, project). str_nat index @ ''.) '' @ path project) (enumerate_from 1 ?lps)
        = map (\<lambda>i. str_nat (Suc i) @ ''.) '' @ path (?lps ! i)) [0..<length ?lps]"
    by (simp add: map_enumerate_from)
  also have "\<dots> = map (\<lambda>i. str_nat (Suc i) @ ''.) '' @ ?paths ! i) [0..<length ?paths]"
    unfolding len by (rule map_cong) (simp_all add: flip: paths)
  finally have entries:
    "map (\<lambda>(index, project). str_nat index @ ''.) '' @ path project) (enumerate_from 1 ?lps)
     = map (\<lambda>i. str_nat (Suc i) @ ''.) '' @ ?paths ! i) [0..<length ?paths]" .
  have "Lock_create E = (Return (Error (local_projects_message ?lps)), [])"
    using ne by (simp add: Lock_create_def partition_fold)
  then show ?thesis
    unfolding local_projects_message_def entries Let_def using ne len by simp
qed

theorem create_rejects_local_projects_witness:
  "Lock_create (example_create_env
       [NamedRequirement ''requests'', LocalProjectRequirement ''./app'',
        NamedRequirement ''attrs'', LocalProjectRequirement ''../lib'']
       (Inr [''linux_x86_64'']))
   = (Return (Error (''Cannot create a lock for local project requirements. Given 2:'' @ NL
                     @ ''1.) ./app'' @ NL @ ''2.) ../lib'')), [])"
proof -
  let ?E = "example_create_env
       [NamedRequirement ''requests'', LocalProjectRequirement ''./app'',
        NamedRequirement ''attrs'', LocalProjectRequirement ''../lib'']
       (Inr [''linux_x86_64''])"
  have h: "\<exists>p \<in> set (parse_requirements ?E). is_LocalProjectRequirement p"
    by (simp add: example_create_env_def)
  show ?thesis
    using create_rejects_local_projects [OF h]
    by (simp add: Let_def example_create_env_def str_nat_small NL_def upt_rec [of 0])
qed

text \<open>
  Claim C5. When the parsed requirements hold no local project, the creation returns
  success exactly when the download returns. The document it then writes has the
  requirements of the parsed requirements and of the parsed constraints, in their order,
  as its requirement and constraint lists, and the locked resolves that the download
  returned, in their order, as its locked resolves.
\<close>

theorem create_succeeds_with_download:
  assumes "\<forall>p \<in> set (parse_requirements E). \<not> is_LocalProjectRequirement p"
  shows "(fst (Lock_create E) = Return Ok \<longleftrightarrow> (\<exists>locked. download E = Inr locked)) \<and>
         (\<forall>locked. download E = Inr locked \<longrightarrow>
            (\<exists>lf. snd (Lock_create E) = [Download, Open_output, Dump_json lf, Close_output] \<and>
                  requirements lf = map requirement (parse_requirements E) \<and>
                  constraints lf = map constraint_requirement (parse_constraints E) \<and>
                  locked_resolves lf = locked))"
proof -
  let ?ps = "parse_requirements E"
  have none: "filter is_LocalProjectRequirement ?ps = []"
    using assms by (simp add: filter_empty_conv)
  have named: "[q. NamedRequirement q \<leftarrow> ps] = map requirement ps"
    if "\<forall>p \<in> set ps. \<not> is_LocalProjectRequirement p" for ps :: "'a ParsedRequirement list"
    using that by (induction ps) (auto split: ParsedRequirement.splits)
  have fold: "foldl partition_step ([], []) ?ps = (map requirement ?ps, [])"
    using none named [OF assms] by (simp add: partition_fold)
  show ?thesis
    by (cases "download E") (simp_all add: Lock_create_def fold Lockfile_create_def)
qed

theorem create_succeeds_with_download_witness:
  "fst (Lock_create (example_create_env [NamedRequirement ''requests'', NamedRequirement ''attrs'']
                       (Inr [''linux_x86_64'', ''macosx_x86_64''])))
   = Return Ok \<and>
   (\<exists>lf. snd (Lock_create (example_create_env
                             [NamedRequirement ''requests'', NamedRequirement ''attrs'']
                             (Inr [''linux_x86_64'', ''macosx_x86_64''])))
          = [Download, Open_output, Dump_json lf, Close_output] \<and>
         requirements lf = [''requests'', ''attrs''] \<and>
         constraints lf = [''urllib3<2''] \<and>
         locked_resolves lf = [''linux_x86_64'', ''macosx_x86_64'']) \<and>
   fst (Lock_create (example_create_env [NamedRequirement ''requests'', NamedRequirement ''attrs'']
                       (Inl (OtherException ''Unsatisfiable''))))
   \<noteq> Return Ok"
proof -
  let ?ps = "[NamedRequirement ''requests'', NamedRequirement ''attrs'']"
  let ?E1 = "example_create_env ?ps (Inr [''linux_x86_64'', ''macosx_x86_64''])"
  let ?E2 = "example_create_env ?ps (Inl (OtherException ''Unsatisfiable''))"
  have h1: "\<forall>p \<in> set (parse_requirements ?E1). \<not> is_LocalProjectRequirement p"
    and h2: "\<forall>p \<in> set (parse_requirements ?E2). \<not> is_LocalProjectRequirement p"
    by (simp_all add: example_create_env_def)
  show ?thesis
    using create_succeeds_with_download [OF h1] create_succeeds_with_download [OF h2]
    by (simp add: example_create_env_def)
qed

end
